theory Spec2Isabelle
  imports Complex_Main
begin

section \<open>Numbers and errors\<close>

text \<open>
  The execution-scheduling engine of \<^verbatim>\<open>execution_algo.py\<close> and the coordinator of
  \<^verbatim>\<open>base_env.py\<close> compute with Python floats, \<^verbatim>\<open>Decimal\<close>s, \<^verbatim>\<open>datetime\<close>s and
  \<^verbatim>\<open>timedelta\<close>s. All of them are embedded as exact rationals: a volume or a price is a
  \<^typ>\<open>rat\<close>, a point in time is a \<^typ>\<open>rat\<close> number of seconds, and a conversion
  \<^verbatim>\<open>Decimal(str(x))\<close> or \<^verbatim>\<open>float(d)\<close> keeps the value. The rounding of binary floating
  point and the microsecond grid of \<^verbatim>\<open>timedelta\<close> are not part of the model; the concrete
  runs below are ones on which they do not change the values shown (but for the last place
  of a quotient of two prices).

  The one place where the source reads the representation of a \<^verbatim>\<open>Decimal\<close> rather than
  its value is the tick size (\<^verbatim>\<open>tick_size.as_tuple().exponent\<close>), so the tick size is a
  record of coefficient and exponent.

  Counts and cursors (\<^verbatim>\<open>n_buckets\<close>, \<^verbatim>\<open>no_of_slices\<close>, the indices) are natural numbers.

  Every \<^verbatim>\<open>raise\<close> of the source, and every exception of a Python primitive it calls
  (a division by zero, an index out of range, a missing key), is a value of \<open>error\<close>.
\<close>

datatype error = ValueError | ZeroDivisionError | IndexError | KeyError | TypeError

record decimal =
  coefficient :: int
  exponent :: int

definition decimal_value :: "decimal \<Rightarrow> rat" where
  "decimal_value d =
     (if 0 \<le> exponent d then of_int (coefficient d) * 10 ^ nat (exponent d)
      else of_int (coefficient d) / 10 ^ nat (- exponent d))"

text \<open>Python's \<^verbatim>\<open>int(x)\<close> on a float or a \<^verbatim>\<open>Decimal\<close> truncates towards zero.\<close>

definition py_int :: "rat \<Rightarrow> int" where
  "py_int x = (if 0 \<le> x then \<lfloor>x\<rfloor> else \<lceil>x\<rceil>)"

text \<open>
  \<^verbatim>\<open>tick = Decimal(str(1 / (10 ** abs(v.as_tuple().exponent))))\<close> in \<^verbatim>\<open>TWAPAlgo.__init__\<close>,
  as a function of the exponent of the best-bid volume \<open>v\<close> of the first snapshot.
  For \<open>k = 0\<close> the quotient is the float \<^verbatim>\<open>1.0\<close>, which prints as \<^verbatim>\<open>'1.0'\<close>:
  \<^verbatim>\<open>Decimal('1.0')\<close> has digits \<open>(1, 0)\<close> and exponent \<open>-1\<close>. For \<open>k > 0\<close> the float
  prints as \<^verbatim>\<open>'0.1'\<close>, \<^verbatim>\<open>'0.01'\<close>, ..., \<^verbatim>\<open>'1e-05'\<close>, ...: digit \<open>(1)\<close>, exponent \<open>-k\<close>.
\<close>

definition tick_size_of_exponent :: "int \<Rightarrow> decimal" where
  "tick_size_of_exponent e =
     (if \<bar>e\<bar> = 0 then \<lparr>coefficient = 10, exponent = - 1\<rparr>
      else \<lparr>coefficient = 1, exponent = - \<bar>e\<bar>\<rparr>)"

section \<open>The volume splitter\<close>

text \<open>
  \<^verbatim>\<open>split_across_buckets(quantity, n_splits, ticks)\<close>. \<^verbatim>\<open>1/ticks\<close> raises on a zero tick,
  \<^verbatim>\<open>divmod(_, n_splits)\<close> raises on \<open>n_splits = 0\<close>, and the two divisions by
  \<^verbatim>\<open>int(1/ticks)\<close> raise when that integer is zero (a tick above one). On floats,
  \<^verbatim>\<open>divmod(x, n)\<close> is \<open>(\<lfloor>x / n\<rfloor>, x - n * \<lfloor>x / n\<rfloor>)\<close>. The comprehension adds one
  tick to part \<open>i\<close> when \<open>i * ticks < extra_vol\<close>.
\<close>

definition split_across_buckets :: "rat \<Rightarrow> nat \<Rightarrow> rat \<Rightarrow> error + rat list" where
  "split_across_buckets quantity n_splits ticks =
     (if ticks = 0 then Inl ZeroDivisionError
      else if n_splits = 0 then Inl ZeroDivisionError
      else
        let mult = py_int (1 / ticks);
            x = quantity * of_int mult;
            base = of_int \<lfloor>x / of_nat n_splits\<rfloor>;
            extra = x - of_nat n_splits * base
        in if mult = 0 then Inl ZeroDivisionError
           else
             let base_vol = base / of_int mult;
                 extra_vol = extra / of_int mult
             in Inr (map (\<lambda>i. base_vol + (if of_nat i * ticks < extra_vol then ticks else 0))
                        [0..<n_splits]))"

section \<open>The bucket partitioner\<close>

text \<open>
  \<^verbatim>\<open>BUCKET_SIZES_IN_SECS\<close>: the keys \<^verbatim>\<open>"1m"\<close>, ..., \<^verbatim>\<open>"4h"\<close> are a number followed by
  a unit, built in \<^verbatim>\<open>_bucket_size\<close> as \<^verbatim>\<open>str(n) + "m"\<close> or \<^verbatim>\<open>str(n) + "h"\<close>.
\<close>

datatype dur_key = Minutes int | Hours int

definition BUCKET_SIZES_IN_SECS :: "dur_key \<rightharpoonup> rat" where
  "BUCKET_SIZES_IN_SECS =
     [Minutes 1 \<mapsto> 7, Minutes 2 \<mapsto> 15, Minutes 3 \<mapsto> 45 / 2, Minutes 4 \<mapsto> 24,
      Minutes 5 \<mapsto> 30, Minutes 10 \<mapsto> 60, Minutes 30 \<mapsto> 180,
      Hours 1 \<mapsto> 300, Hours 2 \<mapsto> 600, Hours 3 \<mapsto> 900, Hours 4 \<mapsto> 1200]"

text \<open>
  \<^verbatim>\<open>Bucket._bucket_size(duration)\<close>, the duration in seconds. The lookup raises
  \<^verbatim>\<open>KeyError\<close> on a key the table does not have (\<^verbatim>\<open>"0m"\<close>, for a duration of zero).
\<close>

definition bucket_size :: "rat \<Rightarrow> error + rat" where
  "bucket_size duration =
     (let duration_in_m = duration / 60;
          dur_key =
            (if duration_in_m > 30 then
               (let ceil_duration_in_h = py_int (of_int \<lfloor>duration_in_m / 60\<rfloor> + 1)
                in Hours (if ceil_duration_in_h \<ge> 5 then 4 else ceil_duration_in_h))
             else if 10 < duration_in_m \<and> duration_in_m \<le> 30 then Minutes 30
             else if 5 < duration_in_m \<and> duration_in_m \<le> 10 then Minutes 10
             else Minutes \<lceil>duration_in_m\<rceil>)
      in case BUCKET_SIZES_IN_SECS dur_key of
           None \<Rightarrow> Inl KeyError
         | Some bucket_width \<Rightarrow> Inr bucket_width)"

text \<open>
  The two checks of \<^verbatim>\<open>BaseEnv._validate_config\<close> on the jitter range
  \<^verbatim>\<open>rand_bucket_low\<close>, \<^verbatim>\<open>rand_bucket_high\<close>, from which \<^verbatim>\<open>_reset_exec_params\<close> draws the
  jitter width: \<open>None\<close> when both pass.
\<close>

definition validate_rand_bucket :: "int \<Rightarrow> int \<Rightarrow> error option" where
  "validate_rand_bucket rand_bucket_low rand_bucket_high =
     (if rand_bucket_low > rand_bucket_high then Some ValueError
      else if rand_bucket_low < 0 \<or> rand_bucket_high > 100 then Some ValueError
      else None)"

text \<open>
  The \<^verbatim>\<open>while\<close> loop of \<^verbatim>\<open>Bucket.bucket_bounds\<close>. Each call of
  \<^verbatim>\<open>randint(-rand_width, rand_width)\<close> takes the next value of a tape of draws; the loop
  has no bound of its own (a draw of \<open>-100\<close> adds a bound equal to the last one), so it
  runs on fuel, one unit for each test of the loop condition: \<open>None\<close> is a run that has not
  left the loop when the fuel or the tape is used up. \<^verbatim>\<open>if rand_width:\<close> is false for
  \<^verbatim>\<open>None\<close> and for \<open>0\<close>. The width is a percentage, never negative (\<^verbatim>\<open>_validate_config\<close>
  asks \<open>0 \<le> rand_bucket_low \<le> rand_bucket_high \<le> 100\<close>).
\<close>

fun bounds_loop :: "nat \<Rightarrow> rat \<Rightarrow> rat \<Rightarrow> nat option \<Rightarrow> int list \<Rightarrow> rat list \<Rightarrow> rat list option" where
  "bounds_loop 0 end_time bucket_width rand_width tape b_bounds = None"
| "bounds_loop (Suc fuel) end_time bucket_width rand_width tape b_bounds =
     (if last b_bounds < end_time then
        (if rand_width \<noteq> None \<and> rand_width \<noteq> Some 0 then
           (case tape of
              [] \<Rightarrow> None
            | rand_add # tape' \<Rightarrow>
                bounds_loop fuel end_time bucket_width rand_width tape'
                  (b_bounds @ [last b_bounds + bucket_width * (1 + of_int rand_add / 100)]))
         else
           bounds_loop fuel end_time bucket_width rand_width tape
             (b_bounds @ [last b_bounds + bucket_width * (1 + 0 / 100)]))
      else Some b_bounds)"

text \<open>
  \<^verbatim>\<open>Bucket.bucket_bounds(rand_width)\<close>: the loop from \<open>[start_time]\<close>, then the last bound
  is deleted when it is not before \<open>end_time\<close>, then \<open>end_time\<close> is appended. The result is
  the pair \<open>(bucket_bounds, n_buckets)\<close>. The list of the loop is never empty.
\<close>

definition bucket_bounds_of :: "nat \<Rightarrow> int list \<Rightarrow> rat \<Rightarrow> rat \<Rightarrow> rat \<Rightarrow> nat option \<Rightarrow> (rat list \<times> nat) option" where
  "bucket_bounds_of fuel tape start_t end_t bucket_wd rand_wd =
     (case bounds_loop fuel end_t bucket_wd rand_wd tape [start_t] of
        None \<Rightarrow> None
      | Some b_bounds \<Rightarrow>
          (let b_bounds1 = (if last b_bounds \<ge> end_t then butlast b_bounds else b_bounds);
               b_bounds2 = b_bounds1 @ [end_t]
           in Some (b_bounds2, length b_bounds2 - 1)))"

record bucket =
  start_time :: rat
  end_time :: rat
  bucket_width :: rat
  rand_width :: "nat option"
  bucket_bounds :: "rat list"
  n_buckets :: nat

text \<open>\<^verbatim>\<open>Bucket.__init__(start_time, end_time, rand_width)\<close>.\<close>

definition Bucket_init :: "nat \<Rightarrow> int list \<Rightarrow> rat \<Rightarrow> rat \<Rightarrow> nat option \<Rightarrow> (error + bucket) option" where
  "Bucket_init fuel tape start_t end_t rand_wd =
     (let duration = end_t - start_t
      in if duration < 0 then Some (Inl ValueError)
         else
           (case bucket_size duration of
              Inl e \<Rightarrow> Some (Inl e)
            | Inr bucket_wd \<Rightarrow>
                (case bucket_bounds_of fuel tape start_t end_t bucket_wd rand_wd of
                   None \<Rightarrow> None
                 | Some (b_bounds, n) \<Rightarrow>
                     Some (Inr \<lparr>start_time = start_t, end_time = end_t, bucket_width = bucket_wd,
                                rand_width = rand_wd, bucket_bounds = b_bounds, n_buckets = n\<rparr>))))"

section \<open>The benchmark schedule\<close>

text \<open>
  \<^verbatim>\<open>_get_execution_times(algo, idx)\<close> for one output \<open>sample_placements\<close> of the
  placement function (an output that is not a list is the one-element list of it). The
  index \<open>idx + 1\<close> is in range for every \<open>idx < n_buckets\<close>, since \<open>n_buckets\<close> is the number
  of bounds less one.
\<close>

definition get_execution_times :: "rat list \<Rightarrow> nat \<Rightarrow> rat list \<Rightarrow> rat list" where
  "get_execution_times bounds idx sample_placements =
     (let t_diff = bounds ! (idx + 1) - bounds ! idx
      in map (\<lambda>plcmt. bounds ! idx + t_diff * plcmt) sample_placements)"

text \<open>
  The resampling loop of \<^verbatim>\<open>_sample_execution_times\<close> for bucket \<open>idx\<close>: every pass calls the
  placement function once, so the loop runs on the tape of the function's successive
  outputs, and \<open>None\<close> is a run that has rejected every output of the tape.
  \<^verbatim>\<open>len(set(bucket_trades))\<close> is the length of the list without its duplicates.
\<close>

fun resample :: "rat list \<Rightarrow> nat \<Rightarrow> nat \<Rightarrow> rat list list \<Rightarrow> (rat list \<times> rat list list) option" where
  "resample bounds idx slices [] = None"
| "resample bounds idx slices (sample_placements # tape) =
     (let bucket_trades = get_execution_times bounds idx sample_placements
      in if length (remdups bucket_trades) < slices
            \<or> (\<exists>trade \<in> set bucket_trades. trade \<in> set bounds)
         then resample bounds idx slices tape
         else Some (bucket_trades, tape))"

text \<open>The \<^verbatim>\<open>for i in range(0, n_buckets)\<close> loop around it, handing the tape on.\<close>

fun sample_buckets :: "rat list \<Rightarrow> nat \<Rightarrow> nat list \<Rightarrow> rat list list \<Rightarrow> (rat list list \<times> rat list list) option" where
  "sample_buckets bounds slices [] tape = Some ([], tape)"
| "sample_buckets bounds slices (i # idxs) tape =
     (case resample bounds i slices tape of
        None \<Rightarrow> None
      | Some (bucket_trades, tape') \<Rightarrow>
          (case sample_buckets bounds slices idxs tape' of
             None \<Rightarrow> None
           | Some (exec_times, tape'') \<Rightarrow> Some (bucket_trades # exec_times, tape'')))"

text \<open>
  \<^verbatim>\<open>ExecutionAlgo._sample_execution_times\<close>: the pair \<open>(execution_times, algo_events)\<close>.
\<close>

definition sample_execution_times :: "bucket \<Rightarrow> nat \<Rightarrow> rat list list \<Rightarrow> (rat list list \<times> rat list) option" where
  "sample_execution_times bk slices tape =
     (case sample_buckets (bucket_bounds bk) slices [0..<n_buckets bk] tape of
        None \<Rightarrow> None
      | Some (exec_times, tape') \<Rightarrow>
          Some (exec_times,
                sorted_list_of_set (set (concat exec_times @ tl (bucket_bounds bk)))))"

text \<open>
  \<^verbatim>\<open>TWAPAlgo._split_volume_across_buckets\<close>. \<^verbatim>\<open>bucket_bounds[-2]\<close> raises on fewer than
  two bounds, the quotient of the two \<^verbatim>\<open>timedelta\<close>s on a total duration of zero, and
  \<^verbatim>\<open>int(1/self.tick_size)\<close> as in the splitter.
\<close>

definition TWAP_split_volume_across_buckets :: "rat \<Rightarrow> decimal \<Rightarrow> bucket \<Rightarrow> error + rat list" where
  "TWAP_split_volume_across_buckets vol tick bk =
     (let bounds = bucket_bounds bk
      in if length bounds < 2 then Inl IndexError
         else if last bounds - hd bounds = 0 then Inl ZeroDivisionError
         else
           (let perc_last_bucket =
                  (last bounds - bounds ! (length bounds - 2)) / (last bounds - hd bounds)
            in if decimal_value tick = 0 then Inl ZeroDivisionError
               else if py_int (1 / decimal_value tick) = 0 then Inl ZeroDivisionError
               else
                 (let vol_last_bucket =
                        of_int \<lfloor>vol * perc_last_bucket * of_int (py_int (1 / decimal_value tick))\<rfloor>
                          / of_int (py_int (1 / decimal_value tick))
                  in case split_across_buckets (vol - vol_last_bucket) (n_buckets bk - 1)
                            (decimal_value tick) of
                       Inl e \<Rightarrow> Inl e
                     | Inr bucket_vol \<Rightarrow> Inr (bucket_vol @ [vol_last_bucket]))))"

text \<open>\<^verbatim>\<open>TWAPAlgo._split_volume_within_buckets\<close>, the loop over the bucket indices.\<close>

fun split_within :: "rat list \<Rightarrow> nat list \<Rightarrow> nat \<Rightarrow> rat \<Rightarrow> error + rat list list" where
  "split_within bucket_vols [] slices ticks = Inr []"
| "split_within bucket_vols (i # idxs) slices ticks =
     (if \<not> i < length bucket_vols then Inl IndexError
      else
        (case split_across_buckets (bucket_vols ! i) slices ticks of
           Inl e \<Rightarrow> Inl e
         | Inr vols_per_trade \<Rightarrow>
             (case split_within bucket_vols idxs slices ticks of
                Inl e \<Rightarrow> Inl e
              | Inr split_vols \<Rightarrow> Inr (vols_per_trade # split_vols))))"

definition TWAP_split_volume_within_buckets :: "rat list \<Rightarrow> bucket \<Rightarrow> nat \<Rightarrow> decimal \<Rightarrow> error + rat list list" where
  "TWAP_split_volume_within_buckets bucket_vols bk slices tick =
     split_within bucket_vols [0..<n_buckets bk] slices (decimal_value tick)"

text \<open>
  What \<^verbatim>\<open>TWAPAlgo.__init__\<close> leaves in the object. The remaining-volume counters and the
  cursors are set later, by \<^verbatim>\<open>reset\<close>, and belong to \<open>execution_algo\<close> below.
\<close>

record schedule =
  volume :: rat
  no_of_slices :: nat
  tick_size :: decimal
  buckets :: bucket
  bucket_volumes :: "rat list"
  execution_times :: "rat list list"
  algo_events :: "rat list"
  volumes_per_trade :: "rat list list"
  volumes_per_trade_default :: "rat list list"

text \<open>
  \<^verbatim>\<open>TWAPAlgo.__init__\<close>: the tick size from the exponent of the first best-bid volume, the
  buckets, the split across buckets with its check, the sampled execution times, the split
  within buckets with its check. \<open>fuel\<close> and \<open>randints\<close> feed the bucket bounds,
  \<open>placements\<close> the sampling of the execution times.
\<close>

definition TWAPAlgo_init ::
  "nat \<Rightarrow> int list \<Rightarrow> rat list list \<Rightarrow> int \<Rightarrow> rat \<Rightarrow> nat \<Rightarrow> rat \<Rightarrow> rat \<Rightarrow> nat option
     \<Rightarrow> (error + schedule) option" where
  "TWAPAlgo_init fuel randints placements v_exponent vol slices start_t end_t rand_wd =
     (let tick = tick_size_of_exponent v_exponent
      in case Bucket_init fuel randints start_t end_t rand_wd of
           None \<Rightarrow> None
         | Some (Inl e) \<Rightarrow> Some (Inl e)
         | Some (Inr bk) \<Rightarrow>
             (case TWAP_split_volume_across_buckets vol tick bk of
                Inl e \<Rightarrow> Some (Inl e)
              | Inr bucket_vols \<Rightarrow>
                  if \<bar>sum_list bucket_vols - vol\<bar> > decimal_value tick then Some (Inl ValueError)
                  else
                    (case sample_execution_times bk slices placements of
                       None \<Rightarrow> None
                     | Some (exec_times, events) \<Rightarrow>
                         (case TWAP_split_volume_within_buckets bucket_vols bk slices tick of
                            Inl e \<Rightarrow> Some (Inl e)
                          | Inr split_vols \<Rightarrow>
                              if \<bar>sum_list (concat split_vols) - vol\<bar> > decimal_value tick
                              then Some (Inl ValueError)
                              else Some (Inr \<lparr>volume = vol, no_of_slices = slices,
                                              tick_size = tick, buckets = bk,
                                              bucket_volumes = bucket_vols,
                                              execution_times = exec_times,
                                              algo_events = events,
                                              volumes_per_trade = split_vols,
                                              volumes_per_trade_default = split_vols\<rparr>)))))"

section \<open>The running schedule\<close>

text \<open>
  A schedule after \<^verbatim>\<open>reset\<close> (benchmark) or after \<^verbatim>\<open>RLAlgo.__init__\<close> (adaptive): the
  remaining volumes and the three cursors.
\<close>

record execution_algo = schedule +
  vol_remaining :: rat
  bucket_vol_remaining :: "rat list"
  event_idx :: nat
  order_idx :: nat
  bucket_idx :: nat

text \<open>
  \<^verbatim>\<open>ExecutionAlgo.reset\<close> on a benchmark schedule (the branch for a class that is not
  \<^verbatim>\<open>RLAlgo\<close>): the allocation table is a copy of the default one.
\<close>

definition reset :: "schedule \<Rightarrow> execution_algo" where
  "reset a =
     \<lparr>volume = volume a, no_of_slices = no_of_slices a, tick_size = tick_size a,
      buckets = buckets a, bucket_volumes = bucket_volumes a,
      execution_times = execution_times a, algo_events = algo_events a,
      volumes_per_trade = volumes_per_trade_default a,
      volumes_per_trade_default = volumes_per_trade_default a,
      vol_remaining = volume a, bucket_vol_remaining = bucket_volumes a,
      event_idx = 0, order_idx = 0, bucket_idx = 0\<rparr>"

text \<open>
  \<^verbatim>\<open>RLAlgo.__init__(benchmark_algo, ...)\<close>, called by \<^verbatim>\<open>BaseEnv.reset\<close> with the volume and
  the number of slices of the benchmark: the allocation table has the shape of the
  benchmark's default table and holds zeros.
\<close>

definition RLAlgo_init :: "schedule \<Rightarrow> execution_algo" where
  "RLAlgo_init benchmark_algo =
     \<lparr>volume = volume benchmark_algo, no_of_slices = no_of_slices benchmark_algo,
      tick_size = tick_size benchmark_algo, buckets = buckets benchmark_algo,
      bucket_volumes = bucket_volumes benchmark_algo,
      execution_times = execution_times benchmark_algo,
      algo_events = algo_events benchmark_algo,
      volumes_per_trade = map (map (\<lambda>order_event. 0)) (volumes_per_trade_default benchmark_algo),
      volumes_per_trade_default = volumes_per_trade_default benchmark_algo,
      vol_remaining = volume benchmark_algo,
      bucket_vol_remaining = bucket_volumes benchmark_algo,
      event_idx = 0, order_idx = 0, bucket_idx = 0\<rparr>"

datatype event_kind = order_placement | bucket_bound

text \<open>
  \<^verbatim>\<open>ExecutionAlgo.update_remaining_volume(trade_log, event_type)\<close>. The trade log is
  \<^verbatim>\<open>None\<close> or carries a quantity. The method mutates the object and may then raise, so the
  result is the exception, if any, and the object as the call leaves it. Reading or
  writing \<^verbatim>\<open>bucket_vol_remaining[bucket_idx]\<close> raises \<^verbatim>\<open>IndexError\<close> past the last bucket;
  the \<^verbatim>\<open>or\<close> of the check reads it only when the global test is false.
\<close>

definition update_remaining_volume ::
  "execution_algo \<Rightarrow> rat option \<Rightarrow> event_kind option \<Rightarrow> error option \<times> execution_algo" where
  "update_remaining_volume s trade_log event_type =
     (let fill = (case trade_log of None \<Rightarrow> False | Some quantity \<Rightarrow> quantity > 0);
          s1 = (if fill then s\<lparr>vol_remaining := vol_remaining s - the trade_log\<rparr> else s)
      in if fill \<and> \<not> bucket_idx s1 < length (bucket_vol_remaining s1) then (Some IndexError, s1)
         else
           (let s2 = (if fill
                      then s1\<lparr>bucket_vol_remaining :=
                                (bucket_vol_remaining s1)
                                  [bucket_idx s1 := bucket_vol_remaining s1 ! bucket_idx s1 - the trade_log]\<rparr>
                      else s1)
            in if vol_remaining s2
                    < - decimal_value (tick_size s2) * of_nat (length (bucket_volumes s2))
               then (Some ValueError, s2)
               else if \<not> bucket_idx s2 < length (bucket_vol_remaining s2) then (Some IndexError, s2)
               else if bucket_vol_remaining s2 ! bucket_idx s2 < - decimal_value (tick_size s2)
               then (Some ValueError, s2)
               else if event_type = Some bucket_bound
               then (None, s2\<lparr>bucket_idx := bucket_idx s2 + 1\<rparr>)
               else (None, s2)))"

section \<open>The coordinator\<close>

text \<open>
  \<^verbatim>\<open>BaseEnv.infer_volume_from_action(action)\<close>, on the adaptive schedule \<open>rl\<close> and the
  benchmark schedule \<open>bmk\<close>. The factor is \<^verbatim>\<open>10 ** (- tick_size.as_tuple().exponent)\<close>: an
  integer for an exponent that is not positive, and a float otherwise, which a
  \<^verbatim>\<open>Decimal\<close> cannot be multiplied with (\<^verbatim>\<open>TypeError\<close>).
\<close>

definition infer_volume_from_action :: "execution_algo \<Rightarrow> execution_algo \<Rightarrow> rat \<Rightarrow> error + rat" where
  "infer_volume_from_action rl bmk action =
     (let b = bucket_idx rl; ord = order_idx rl
      in if \<not> (b < length (volumes_per_trade rl) \<and> ord < length (volumes_per_trade rl ! b))
         then Inl IndexError
         else if \<not> (b < length (volumes_per_trade_default bmk)
                      \<and> ord < length (volumes_per_trade_default bmk ! b))
         then Inl IndexError
         else
           (let current_executing_volume = volumes_per_trade rl ! b ! ord;
                vol_to_add = action * (volumes_per_trade_default bmk ! b ! ord);
                vol_to_trade = current_executing_volume + vol_to_add
            in if exponent (tick_size bmk) > 0 then Inl TypeError
               else
                 (let factor = 10 ^ nat (- exponent (tick_size bmk));
                      vol_to_trade' = of_int \<lfloor>vol_to_trade * factor\<rfloor> / factor
                  in if \<not> b < length (bucket_vol_remaining rl) then Inl IndexError
                     else if vol_to_trade' > bucket_vol_remaining rl ! b
                     then Inr (bucket_vol_remaining rl ! b)
                     else Inr vol_to_trade')))"

section \<open>The reward policies\<close>

text \<open>
  The broker is not part of these sources: the outcome of
  \<^verbatim>\<open>self.broker.calc_vwap_from_logs(...)\<close> over the window of a reward policy is a
  parameter \<open>vwaps\<close>, either the exception the call raises or the pair
  \<open>(vwap_bmk, vwap_rl)\<close> it returns. \<open>trade_dir\<close> is \<open>1\<close> for a buy. A division by a
  VWAP of zero raises, as every other failure inside a \<^verbatim>\<open>try\<close> does, and the bare
  \<^verbatim>\<open>except:\<close> turns it into the reward \<open>0\<close>.
\<close>

text \<open>\<^verbatim>\<open>ExampleEnvRewardAtStep.reward_func\<close>: the sign variant; it has no \<^verbatim>\<open>try\<close>.\<close>

definition ExampleEnvRewardAtStep_reward_func :: "int \<Rightarrow> error + rat \<times> rat \<Rightarrow> error + rat" where
  "ExampleEnvRewardAtStep_reward_func trade_dir vwaps =
     (case vwaps of
        Inl e \<Rightarrow> Inl e
      | Inr (vwap_bmk, vwap_rl) \<Rightarrow>
          Inr (if trade_dir = 1 then (if vwap_bmk > vwap_rl then 1 else 0)
               else (if vwap_bmk < vwap_rl then 1 else 0)))"

text \<open>The percentage payoff shared by three variants, inside their \<^verbatim>\<open>try\<close>.\<close>

definition perc_improvement :: "int \<Rightarrow> error + rat \<times> rat \<Rightarrow> rat" where
  "perc_improvement trade_dir vwaps =
     (case vwaps of
        Inl e \<Rightarrow> 0
      | Inr (vwap_bmk, vwap_rl) \<Rightarrow>
          if trade_dir = 1 then (if vwap_rl = 0 then 0 else vwap_bmk / vwap_rl - 1)
          else (if vwap_bmk = 0 then 0 else vwap_rl / vwap_bmk - 1))"

text \<open>The dollar payoff, inside its \<^verbatim>\<open>try\<close>.\<close>

definition dollar_improvement :: "int \<Rightarrow> error + rat \<times> rat \<Rightarrow> rat" where
  "dollar_improvement trade_dir vwaps =
     (case vwaps of
        Inl e \<Rightarrow> 0
      | Inr (vwap_bmk, vwap_rl) \<Rightarrow>
          if trade_dir = 1 then vwap_bmk - vwap_rl else vwap_rl - vwap_bmk)"

text \<open>\<^verbatim>\<open>RewardAtStepEnv.reward_func\<close>: the per-step percentage variant.\<close>

definition RewardAtStepEnv_reward_func :: "int \<Rightarrow> error + rat \<times> rat \<Rightarrow> error + rat" where
  "RewardAtStepEnv_reward_func trade_dir vwaps = Inr (perc_improvement trade_dir vwaps)"

text \<open>
  \<^verbatim>\<open>RewardAtBucketEnv.reward_func\<close>; \<open>bucket_changed\<close> is
  \<^verbatim>\<open>self.bucket_time != self.bucket_time_prev\<close>.
\<close>

definition RewardAtBucketEnv_reward_func :: "int \<Rightarrow> bool \<Rightarrow> error + rat \<times> rat \<Rightarrow> error + rat" where
  "RewardAtBucketEnv_reward_func trade_dir bucket_changed vwaps =
     Inr (if bucket_changed then perc_improvement trade_dir vwaps else 0)"

text \<open>\<^verbatim>\<open>RewardAtEpisodeEnv.reward_func\<close>; \<open>done\<close> is \<^verbatim>\<open>self.done\<close>.\<close>

definition RewardAtEpisodeEnv_reward_func :: "int \<Rightarrow> bool \<Rightarrow> error + rat \<times> rat \<Rightarrow> error + rat" where
  "RewardAtEpisodeEnv_reward_func trade_dir done vwaps =
     Inr (if done then perc_improvement trade_dir vwaps else 0)"

text \<open>\<^verbatim>\<open>NarrowTradeLimitEnvContinuous.reward_func\<close>.\<close>

definition NarrowTradeLimitEnvContinuous_reward_func :: "int \<Rightarrow> bool \<Rightarrow> error + rat \<times> rat \<Rightarrow> error + rat" where
  "NarrowTradeLimitEnvContinuous_reward_func trade_dir bucket_changed vwaps =
     Inr (if bucket_changed then dollar_improvement trade_dir vwaps else 0)"

text \<open>
  \<^verbatim>\<open>NarrowTradeLimitEnvDiscrete.reward_func\<close>. The volume of the bucket is read before the
  \<^verbatim>\<open>try\<close>, from the benchmark's \<^verbatim>\<open>volumes_per_trade\<close> at the environment's \<open>bucket_idx\<close>.
\<close>

definition NarrowTradeLimitEnvDiscrete_reward_func ::
  "rat list list \<Rightarrow> nat \<Rightarrow> int \<Rightarrow> bool \<Rightarrow> error + rat \<times> rat \<Rightarrow> error + rat" where
  "NarrowTradeLimitEnvDiscrete_reward_func bmk_volumes env_bucket_idx trade_dir bucket_changed vwaps =
     (if \<not> env_bucket_idx < length bmk_volumes then Inl IndexError
      else
        (let vol = sum_list (bmk_volumes ! env_bucket_idx)
         in Inr (if bucket_changed
                 then (case vwaps of Inl e \<Rightarrow> 0 | Inr v \<Rightarrow> vol * dollar_improvement trade_dir vwaps)
                 else 0)))"

text \<open>\<^verbatim>\<open>DollarRewardAtStepEnv.reward_func\<close>: the per-step dollar variant.\<close>

definition DollarRewardAtStepEnv_reward_func :: "int \<Rightarrow> error + rat \<times> rat \<Rightarrow> error + rat" where
  "DollarRewardAtStepEnv_reward_func trade_dir vwaps = Inr (dollar_improvement trade_dir vwaps)"

section \<open>Properties of the volume splitter\<close>







section \<open>Properties of the bucket partitioner\<close>

text \<open>
  Claim C4 fails at the jitter width 100, which \<^verbatim>\<open>_validate_config\<close> accepts (a range from
  100 to 100 passes both checks). From second 0
  to second 10 the bucket width is 7; when the first draw of \<^verbatim>\<open>randint(-100, 100)\<close> is
  \<open>-100\<close>, the first bound added is \<open>0 + 7 * (1 - 100/100) = 0\<close>, the start time again. With
  the next two draws 0 the bounds are \<open>[0, 0, 7, 10]\<close>: they begin at the start time and end
  at the end time, and they are not strictly increasing.
\<close>

theorem bucket_bounds_full_jitter:
  "validate_rand_bucket 100 100 = None
   \<and> Bucket_init 5 [- 100, 0, 0] 0 10 (Some 100) =
       Some (Inr \<lparr>start_time = 0, end_time = 10, bucket_width = 7, rand_width = Some 100,
                  bucket_bounds = [0, 0, 7, 10], n_buckets = 3\<rparr>)
   \<and> \<not> sorted_wrt (<) [0, 0, 7, 10 :: rat]"
  by code_simp

text \<open>Without jitter, a duration of at most the bucket width gives the one bucket from start to end.\<close>

lemma bounds_loop_single:
  assumes "start_t < end_t" and "end_t - start_t \<le> w"
    and "rand_wd = None \<or> rand_wd = Some 0"
  shows "bounds_loop (Suc (Suc fuel)) end_t w rand_wd tape [start_t] = Some [start_t, start_t + w]"
  using assms by auto

lemma Bucket_init_single:
  assumes "start_t < end_t" and "bucket_size (end_t - start_t) = Inr w" and "end_t - start_t \<le> w"
    and "rand_wd = None \<or> rand_wd = Some 0" and "2 \<le> fuel"
  shows "Bucket_init fuel randints start_t end_t rand_wd =
           Some (Inr \<lparr>start_time = start_t, end_time = end_t, bucket_width = w,
                      rand_width = rand_wd, bucket_bounds = [start_t, end_t], n_buckets = 1\<rparr>)"
proof -
  from assms(5) obtain f where f: "fuel = Suc (Suc f)"
    by (metis Suc_le_D numeral_2_eq_2 Suc_le_mono)
  have "bounds_loop fuel end_t w rand_wd randints [start_t] = Some [start_t, start_t + w]"
    unfolding f using assms(1,3,4) by (rule bounds_loop_single)
  then have "bucket_bounds_of fuel randints start_t end_t w rand_wd = Some ([start_t, end_t], 1)"
    using assms(3) by (simp add: bucket_bounds_of_def)
  then show ?thesis
    using assms(1,2) by (simp add: Bucket_init_def)
qed

text \<open>
  The bounds for draws above \<open>-100\<close>, which is every draw when the jitter width is at most
  99: every bucket width is positive, every increment \<open>bucket_width * (1 + rand_add / 100)\<close>
  is positive, and the loop keeps the list strictly increasing with all bounds but the last
  one before the end time.
\<close>

lemma bucket_size_positive: "bucket_size duration = Inr w \<Longrightarrow> 0 < w"
  by (auto simp: bucket_size_def BUCKET_SIZES_IN_SECS_def Let_def split: if_splits)

lemma strict_sorted_le_last:
  "sorted_wrt (<) bs \<Longrightarrow> x \<in> set bs \<Longrightarrow> x \<le> (last bs :: rat)"
  by (induction bs) (auto simp: less_imp_le)

lemma bounds_loop_invariant:
  assumes "bounds_loop fuel end_t w rand_wd tape bs = Some bs'"
    and "bs \<noteq> []" and "sorted_wrt (<) bs" and "\<forall>x \<in> set (butlast bs). x < end_t"
    and "0 < w" and "\<forall>rand_add \<in> set tape. - 100 < rand_add"
  shows "(\<exists>ext. bs' = bs @ ext) \<and> sorted_wrt (<) bs'
         \<and> (\<forall>x \<in> set (butlast bs'). x < end_t) \<and> end_t \<le> last bs'"
  using assms
proof (induction fuel arbitrary: tape bs)
  case 0
  then show ?case by simp
next
  case (Suc fuel)
  show ?case
  proof (cases "last bs < end_t")
    case False
    with Suc.prems show ?thesis by simp
  next
    case True
    have step: "(\<exists>ext. bs' = (bs @ [y]) @ ext) \<and> sorted_wrt (<) bs'
         \<and> (\<forall>x \<in> set (butlast bs'). x < end_t) \<and> end_t \<le> last bs'"
      if run: "bounds_loop fuel end_t w rand_wd tape' (bs @ [y]) = Some bs'"
        and y: "last bs < y" and t: "\<forall>rand_add \<in> set tape'. - 100 < rand_add" for y tape'
    proof (rule Suc.IH [OF run])
      show "bs @ [y] \<noteq> []" by simp
      show "sorted_wrt (<) (bs @ [y])"
        using Suc.prems(3) y strict_sorted_le_last [OF Suc.prems(3)]
        by (fastforce simp: sorted_wrt_append)
      have "set bs = set (butlast bs) \<union> {last bs}"
        using Suc.prems(2)
        by (metis append_butlast_last_id set_append list.simps(15) empty_set Un_insert_right
            sup_bot.right_neutral)
      then show "\<forall>x \<in> set (butlast (bs @ [y])). x < end_t"
        using Suc.prems(4) True by auto
      show "0 < w" by (rule Suc.prems(5))
      show "\<forall>rand_add \<in> set tape'. - 100 < rand_add" by (rule t)
    qed
    show ?thesis
    proof (cases "rand_wd \<noteq> None \<and> rand_wd \<noteq> Some 0")
      case jitter: True
      with True Suc.prems(1) obtain rand_add tape' where
        tp: "tape = rand_add # tape'"
        and run: "bounds_loop fuel end_t w rand_wd tape'
                    (bs @ [last bs + w * (1 + of_int rand_add / 100)]) = Some bs'"
        by (auto split: list.splits)
      have "- 100 < rand_add" using Suc.prems(6) tp by simp
      then have "(0 :: rat) < 1 + of_int rand_add / 100"
        by (simp add: field_simps)
      then have "0 < w * (1 + of_int rand_add / 100)"
        using Suc.prems(5) by simp
      then have y: "last bs < last bs + w * (1 + of_int rand_add / 100)" by simp
      have "\<forall>rand_add \<in> set tape'. - 100 < rand_add" using Suc.prems(6) tp by simp
      from step [OF run y this] show ?thesis by auto
    next
      case False
      with True Suc.prems(1) have
        run: "bounds_loop fuel end_t w rand_wd tape (bs @ [last bs + w * (1 + 0 / 100)]) = Some bs'"
        by auto
      have y: "last bs < last bs + w * (1 + 0 / 100)" using Suc.prems(5) by simp
      from step [OF run y Suc.prems(6)] show ?thesis by auto
    qed
  qed
qed

text \<open>
  For an end time after the start time and draws above \<open>-100\<close>, the bounds of every bucket
  set that \<^verbatim>\<open>Bucket.__init__\<close> returns are strictly increasing, begin at the start time and
  end at the end time, and there is at least one bucket.
\<close>

theorem Bucket_init_bounds_increasing:
  assumes "Bucket_init fuel tape start_t end_t rand_wd = Some (Inr bk)"
    and "start_t < end_t" and "\<forall>rand_add \<in> set tape. - 100 < rand_add"
  shows "sorted_wrt (<) (bucket_bounds bk) \<and> hd (bucket_bounds bk) = start_t
         \<and> last (bucket_bounds bk) = end_t
         \<and> n_buckets bk = length (bucket_bounds bk) - 1 \<and> 1 \<le> n_buckets bk"
proof -
  from assms(1,2) obtain w bs where
    w: "bucket_size (end_t - start_t) = Inr w"
    and loop: "bounds_loop fuel end_t w rand_wd tape [start_t] = Some bs"
    and bk: "bucket_bounds bk = (if last bs \<ge> end_t then butlast bs else bs) @ [end_t]"
    and n: "n_buckets bk = length (bucket_bounds bk) - 1"
    by (auto simp: Bucket_init_def bucket_bounds_of_def Let_def
          split: sum.splits option.splits if_splits)
  from bucket_size_positive [OF w] have "0 < w" .
  with bounds_loop_invariant [OF loop] assms(3) obtain ext where
    ext: "bs = [start_t] @ ext" and srt: "sorted_wrt (<) bs"
    and below: "\<forall>x \<in> set (butlast bs). x < end_t" and reach: "end_t \<le> last bs"
    by auto
  from ext reach assms(2) have "ext \<noteq> []" by auto
  with ext have bl: "butlast bs = start_t # butlast ext" by simp
  from reach bk have b: "bucket_bounds bk = butlast bs @ [end_t]" by simp
  have "sorted_wrt (<) (butlast bs)"
    using srt by (metis append_butlast_last_id butlast.simps(1) sorted_wrt_append)
  with below have "sorted_wrt (<) (butlast bs @ [end_t])"
    by (simp add: sorted_wrt_append)
  with b bl n show ?thesis by simp
qed

theorem Bucket_init_bounds_increasing_witness:
  "Bucket_init 5 [- 99, 50, 0] 0 10 (Some 99) =
     Some (Inr \<lparr>start_time = 0, end_time = 10, bucket_width = 7, rand_width = Some 99,
                bucket_bounds = [0, 7 / 100, 10], n_buckets = 2\<rparr>)
   \<and> sorted_wrt (<) [0, 7 / 100, 10 :: rat]
   \<and> list_all (\<lambda>rand_add. - 100 < rand_add) [- 99, 50, 0 :: int]"
proof -
  have run: "Bucket_init 5 [- 99, 50, 0] 0 10 (Some 99) =
     Some (Inr \<lparr>start_time = 0, end_time = 10, bucket_width = 7, rand_width = Some 99,
                bucket_bounds = [0, 7 / 100, 10], n_buckets = 2\<rparr>)"
    by code_simp
  from Bucket_init_bounds_increasing [OF run] run show ?thesis by simp
qed

section \<open>Properties of the benchmark schedule\<close>

lemma tick_value: "decimal_value (tick_size_of_exponent e) = 1 / 10 ^ nat \<bar>e\<bar>"
  by (simp add: decimal_value_def tick_size_of_exponent_def)

lemma tick_mult: "py_int (1 / decimal_value (tick_size_of_exponent e)) = 10 ^ nat \<bar>e\<bar>"
  by (simp add: tick_value py_int_def)

lemma tick_positive: "0 < decimal_value (tick_size_of_exponent e)"
  by (simp add: tick_value)

text \<open>
  Claim C9. Take an end time after the start time, a duration of at most the bucket width
  that \<^verbatim>\<open>_bucket_size\<close> gives for it, and no jitter (\<^verbatim>\<open>rand_width\<close> \<^verbatim>\<open>None\<close> or 0, as in the
  default configuration). With fuel for the two tests of the loop condition, the bucket set
  is the one bucket from start to end; the splitter, called for \<open>n_buckets - 1 = 0\<close> parts,
  raises \<^verbatim>\<open>ZeroDivisionError\<close>; and this is the outcome of \<^verbatim>\<open>TWAPAlgo.__init__\<close>, whatever
  the volume, the tick size, the number of slices and the placement function.
\<close>

theorem TWAPAlgo_init_single_bucket:
  assumes "start_t < end_t" and "bucket_size (end_t - start_t) = Inr w" and "end_t - start_t \<le> w"
    and "rand_wd = None \<or> rand_wd = Some 0" and "2 \<le> fuel"
  shows "Bucket_init fuel randints start_t end_t rand_wd =
           Some (Inr \<lparr>start_time = start_t, end_time = end_t, bucket_width = w,
                      rand_width = rand_wd, bucket_bounds = [start_t, end_t], n_buckets = 1\<rparr>)
       \<and> split_across_buckets
            (vol - of_int \<lfloor>vol * 1 * of_int (py_int (1 / decimal_value (tick_size_of_exponent v_exponent)))\<rfloor>
                     / of_int (py_int (1 / decimal_value (tick_size_of_exponent v_exponent))))
            (1 - 1) (decimal_value (tick_size_of_exponent v_exponent)) = Inl ZeroDivisionError
       \<and> TWAPAlgo_init fuel randints placements v_exponent vol slices start_t end_t rand_wd =
           Some (Inl ZeroDivisionError)"
proof -
  let ?bk = "\<lparr>start_time = start_t, end_time = end_t, bucket_width = w,
              rand_width = rand_wd, bucket_bounds = [start_t, end_t], n_buckets = 1\<rparr>"
  let ?tick = "tick_size_of_exponent v_exponent"
  have bk: "Bucket_init fuel randints start_t end_t rand_wd = Some (Inr ?bk)"
    using assms by (rule Bucket_init_single)
  have sp: "split_across_buckets q 0 (decimal_value ?tick) = Inl ZeroDivisionError" for q
    by (simp add: split_across_buckets_def)
  have "TWAP_split_volume_across_buckets vol ?tick ?bk = Inl ZeroDivisionError"
    using assms(1) tick_positive [of v_exponent]
    by (simp add: TWAP_split_volume_across_buckets_def Let_def sp tick_mult)
  then have "TWAPAlgo_init fuel randints placements v_exponent vol slices start_t end_t rand_wd =
           Some (Inl ZeroDivisionError)"
    by (simp add: TWAPAlgo_init_def bk)
  with bk sp show ?thesis by simp
qed

theorem TWAPAlgo_init_single_bucket_witness:
  "(0 :: rat) < 5 \<and> bucket_size (5 - 0) = Inr 7
   \<and> TWAPAlgo_init 2 [] [[1 / 2]] (- 2) 1000 5 0 5 None = Some (Inl ZeroDivisionError)"
proof -
  have b: "bucket_size (5 - 0) = Inr 7"
    by (simp add: bucket_size_def BUCKET_SIZES_IN_SECS_def ceiling_eq_iff)
  have "TWAPAlgo_init 2 [] [[1 / 2]] (- 2) 1000 5 0 5 None = Some (Inl ZeroDivisionError)"
    using TWAPAlgo_init_single_bucket [of 0 5 7 None 2 "[]" 1000 "- 2" "[[1 / 2]]" 5] b by simp
  with b show ?thesis by simp
qed


lemma TWAPAlgo_init_Inr:
  assumes "TWAPAlgo_init fuel randints placements v_exponent vol slices start_t end_t rand_wd
             = Some (Inr a)"
  shows "tick_size a = tick_size_of_exponent v_exponent
       \<and> Bucket_init fuel randints start_t end_t rand_wd = Some (Inr (buckets a))
       \<and> TWAP_split_volume_across_buckets vol (tick_size a) (buckets a) = Inr (bucket_volumes a)
       \<and> \<not> \<bar>sum_list (bucket_volumes a) - vol\<bar> > decimal_value (tick_size a)
       \<and> (\<exists>events. sample_execution_times (buckets a) slices placements
                      = Some (execution_times a, events))
       \<and> \<not> \<bar>sum_list (concat (volumes_per_trade a)) - vol\<bar> > decimal_value (tick_size a)"
  using assms
  by (auto simp: TWAPAlgo_init_def Let_def split: option.splits sum.splits if_splits)




text \<open>The resampling loop returns a suffix of the tape, and only what passed its test.\<close>

lemma resample_suffix:
  "resample bounds idx slices tape = Some (bucket_trades, tape') \<Longrightarrow> set tape' \<subseteq> set tape"
  by (induction tape) (auto simp: Let_def split: if_splits)

lemma resample_accepts:
  "resample bounds idx slices tape = Some (bucket_trades, tape') \<Longrightarrow>
     slices \<le> length (remdups bucket_trades)
     \<and> (\<forall>trade \<in> set bucket_trades. trade \<notin> set bounds)
     \<and> (\<exists>sample_placements \<in> set tape. length bucket_trades = length sample_placements)"
  by (induction tape) (auto simp: Let_def get_execution_times_def split: if_splits)

lemma distinct_of_enough:
  assumes "n \<le> length (remdups xs)" and "length xs \<le> n"
  shows "distinct xs \<and> length xs = n"
proof -
  have "length (remdups xs) \<le> length xs" by (rule length_remdups_leq)
  with assms have eq: "length (remdups xs) = length xs" and n: "length xs = n" by linarith+
  from eq have "distinct xs" by (metis length_remdups_eq remdups_id_iff_distinct)
  with n show ?thesis by simp
qed

lemma sample_buckets_accepts:
  "sample_buckets bounds slices idxs tape = Some (exec_times, tape') \<Longrightarrow>
     length exec_times = length idxs
     \<and> set tape' \<subseteq> set tape
     \<and> (\<forall>bucket_trades \<in> set exec_times.
           slices \<le> length (remdups bucket_trades)
           \<and> (\<forall>trade \<in> set bucket_trades. trade \<notin> set bounds)
           \<and> (\<exists>sample_placements \<in> set tape. length bucket_trades = length sample_placements))"
proof (induction idxs arbitrary: tape exec_times tape')
  case Nil
  then show ?case by simp
next
  case (Cons i idxs)
  from Cons.prems obtain bucket_trades tape1 rest where
    r: "resample bounds i slices tape = Some (bucket_trades, tape1)"
    and s: "sample_buckets bounds slices idxs tape1 = Some (rest, tape')"
    and e: "exec_times = bucket_trades # rest"
    by (auto split: option.splits)
  from resample_suffix [OF r] have sub: "set tape1 \<subseteq> set tape" .
  from Cons.IH [OF s] sub resample_accepts [OF r] e show ?case
    by fastforce
qed

lemma sample_execution_times_accepts:
  assumes "sample_execution_times bk slices placements = Some (exec_times, events)"
  shows "length exec_times = n_buckets bk
       \<and> (\<forall>bucket_trades \<in> set exec_times.
             (\<forall>trade \<in> set bucket_trades. trade \<notin> set (bucket_bounds bk))
             \<and> slices \<le> length (remdups bucket_trades)
             \<and> ((\<forall>sample_placements \<in> set placements. length sample_placements \<le> slices)
                  \<longrightarrow> distinct bucket_trades \<and> length bucket_trades = slices))"
proof -
  from assms obtain tape' where
    s: "sample_buckets (bucket_bounds bk) slices [0..<n_buckets bk] placements = Some (exec_times, tape')"
    by (auto simp: sample_execution_times_def split: option.splits)
  from sample_buckets_accepts [OF s] show ?thesis
    by (auto dest!: bspec intro: distinct_of_enough [THEN conjunct1] distinct_of_enough [THEN conjunct2])
qed

text \<open>
  Claim C7. Whatever \<^verbatim>\<open>_sample_execution_times\<close> retains, for a bucket set \<open>bk\<close> and in the
  schedule of \<^verbatim>\<open>TWAPAlgo.__init__\<close>, has one list of timestamps for every bucket; no
  timestamp of a list is a bucket bound, whatever the placement function returned; and every
  list holds at least \<open>no_of_slices\<close> different timestamps. When the placement function keeps
  to its interface and returns at most \<open>no_of_slices\<close> fractions (the default one returns
  exactly that many), the timestamps of a bucket are pairwise distinct and \<open>no_of_slices\<close>
  in number.
\<close>

theorem execution_times_distinct:
  "(sample_execution_times bk slices placements = Some (exec_times, events) \<longrightarrow>
      length exec_times = n_buckets bk
      \<and> (\<forall>bucket_trades \<in> set exec_times.
            (\<forall>trade \<in> set bucket_trades. trade \<notin> set (bucket_bounds bk))
            \<and> slices \<le> length (remdups bucket_trades)
            \<and> ((\<forall>sample_placements \<in> set placements. length sample_placements \<le> slices)
                 \<longrightarrow> distinct bucket_trades \<and> length bucket_trades = slices)))
   \<and> (TWAPAlgo_init fuel randints placements v_exponent vol slices start_t end_t rand_wd
        = Some (Inr a) \<longrightarrow>
      length (execution_times a) = n_buckets (buckets a)
      \<and> (\<forall>bucket_trades \<in> set (execution_times a).
            (\<forall>trade \<in> set bucket_trades. trade \<notin> set (bucket_bounds (buckets a)))
            \<and> slices \<le> length (remdups bucket_trades)
            \<and> ((\<forall>sample_placements \<in> set placements. length sample_placements \<le> slices)
                 \<longrightarrow> distinct bucket_trades \<and> length bucket_trades = slices)))"
proof (rule conjI; rule impI)
  assume "sample_execution_times bk slices placements = Some (exec_times, events)"
  then show "length exec_times = n_buckets bk
      \<and> (\<forall>bucket_trades \<in> set exec_times.
            (\<forall>trade \<in> set bucket_trades. trade \<notin> set (bucket_bounds bk))
            \<and> slices \<le> length (remdups bucket_trades)
            \<and> ((\<forall>sample_placements \<in> set placements. length sample_placements \<le> slices)
                 \<longrightarrow> distinct bucket_trades \<and> length bucket_trades = slices))"
    by (rule sample_execution_times_accepts)
next
  assume "TWAPAlgo_init fuel randints placements v_exponent vol slices start_t end_t rand_wd
        = Some (Inr a)"
  from TWAPAlgo_init_Inr [OF this] obtain evs where
    "sample_execution_times (buckets a) slices placements = Some (execution_times a, evs)"
    by blast
  then show "length (execution_times a) = n_buckets (buckets a)
      \<and> (\<forall>bucket_trades \<in> set (execution_times a).
            (\<forall>trade \<in> set bucket_trades. trade \<notin> set (bucket_bounds (buckets a)))
            \<and> slices \<le> length (remdups bucket_trades)
            \<and> ((\<forall>sample_placements \<in> set placements. length sample_placements \<le> slices)
                 \<longrightarrow> distinct bucket_trades \<and> length bucket_trades = slices))"
    by (rule sample_execution_times_accepts)
qed

theorem execution_times_distinct_witness:
  "sample_execution_times \<lparr>start_time = 0, end_time = 20, bucket_width = 7, rand_width = None,
       bucket_bounds = [0, 7, 14, 20], n_buckets = 3\<rparr> 2 [[1 / 4, 1 / 2], [1 / 2, 1 / 2], [1 / 4, 1 / 2], [0, 1 / 2], [1 / 4, 3 / 4]] =
     Some ([[7 / 4, 7 / 2], [35 / 4, 21 / 2], [31 / 2, 37 / 2]],
           [7 / 4, 7 / 2, 7, 35 / 4, 21 / 2, 14, 31 / 2, 37 / 2, 20])
   \<and> list_all (\<lambda>sample_placements. length sample_placements \<le> 2)
        ([[1 / 4, 1 / 2], [1 / 2, 1 / 2], [1 / 4, 1 / 2], [0, 1 / 2], [1 / 4, 3 / 4]] :: rat list list)
   \<and> list_all (\<lambda>bucket_trades. distinct bucket_trades \<and> length bucket_trades = 2
                  \<and> list_all (\<lambda>trade. trade \<notin> set [0, 7, 14, 20]) bucket_trades)
        [[7 / 4, 7 / 2], [35 / 4, 21 / 2], [31 / 2, 37 / 2 :: rat]]"
proof -
  have run: "sample_execution_times \<lparr>start_time = 0, end_time = 20, bucket_width = 7, rand_width = None,
       bucket_bounds = [0, 7, 14, 20], n_buckets = 3\<rparr> 2 [[1 / 4, 1 / 2], [1 / 2, 1 / 2], [1 / 4, 1 / 2], [0, 1 / 2], [1 / 4, 3 / 4]] =
     Some ([[7 / 4, 7 / 2], [35 / 4, 21 / 2], [31 / 2, 37 / 2]],
           [7 / 4, 7 / 2, 7, 35 / 4, 21 / 2, 14, 31 / 2, 37 / 2, 20])"
    by code_simp
  from execution_times_distinct [THEN conjunct1, rule_format, OF run] run show ?thesis
    by simp
qed

section \<open>Properties of the remaining-volume update\<close>

text \<open>
  The benchmark schedule that \<^verbatim>\<open>TWAPAlgo.__init__\<close> builds for a volume of 10 from second 0
  to second 10, with one slice to a bucket placed at the middle of it, no jitter, and a
  best-bid volume without decimals (tick size \<^verbatim>\<open>Decimal('1.0')\<close>): the bounds are
  \<open>[0, 7, 10]\<close> and the two buckets hold 7 and 3.
\<close>

lemma twap_example:
  "TWAPAlgo_init 5 [] [[1 / 2], [1 / 2]] 0 10 1 0 10 None = Some (Inr \<lparr>volume = 10, no_of_slices = 1, tick_size = \<lparr>coefficient = 10, exponent = - 1\<rparr>,
       buckets = \<lparr>start_time = 0, end_time = 10, bucket_width = 7, rand_width = None,
                  bucket_bounds = [0, 7, 10], n_buckets = 2\<rparr>,
       bucket_volumes = [7, 3], execution_times = [[7 / 2], [17 / 2]],
       algo_events = [7 / 2, 7, 17 / 2, 10],
       volumes_per_trade = [[7], [3]], volumes_per_trade_default = [[7], [3]]\<rparr>)"
  by code_simp

text \<open>
  Claim C1, as the code has it. For a fill of a positive quantity and a bucket cursor on an
  existing bucket, \<^verbatim>\<open>update_remaining_volume\<close> takes the quantity off the global and off the
  current bucket's remaining volume, and raises \<^verbatim>\<open>ValueError\<close> exactly when the global
  remaining volume is then below \<open>- tick_size * len(bucket_volumes)\<close> (one tick for every
  bucket, not one tick) or the current bucket's is below \<open>- tick_size\<close>; otherwise it
  returns normally.
\<close>

theorem update_remaining_volume_fill:
  assumes "0 < quantity" and "bucket_idx s < length (bucket_vol_remaining s)"
  shows "vol_remaining (snd (update_remaining_volume s (Some quantity) event_type))
           = vol_remaining s - quantity
       \<and> bucket_vol_remaining (snd (update_remaining_volume s (Some quantity) event_type))
           = (bucket_vol_remaining s)[bucket_idx s := bucket_vol_remaining s ! bucket_idx s - quantity]
       \<and> fst (update_remaining_volume s (Some quantity) event_type)
           = (if vol_remaining s - quantity
                   < - decimal_value (tick_size s) * of_nat (length (bucket_volumes s))
                 \<or> bucket_vol_remaining s ! bucket_idx s - quantity < - decimal_value (tick_size s)
              then Some ValueError else None)"
  using assms by (simp add: update_remaining_volume_def Let_def)

theorem update_remaining_volume_fill_witness:
  "(0 :: rat) < 9
   \<and> bucket_idx (reset \<lparr>volume = 10, no_of_slices = 1, tick_size = \<lparr>coefficient = 10, exponent = - 1\<rparr>,
       buckets = \<lparr>start_time = 0, end_time = 10, bucket_width = 7, rand_width = None,
                  bucket_bounds = [0, 7, 10], n_buckets = 2\<rparr>,
       bucket_volumes = [7, 3], execution_times = [[7 / 2], [17 / 2]],
       algo_events = [7 / 2, 7, 17 / 2, 10],
       volumes_per_trade = [[7], [3]], volumes_per_trade_default = [[7], [3]]\<rparr>) < length (bucket_vol_remaining (reset \<lparr>volume = 10, no_of_slices = 1, tick_size = \<lparr>coefficient = 10, exponent = - 1\<rparr>,
       buckets = \<lparr>start_time = 0, end_time = 10, bucket_width = 7, rand_width = None,
                  bucket_bounds = [0, 7, 10], n_buckets = 2\<rparr>,
       bucket_volumes = [7, 3], execution_times = [[7 / 2], [17 / 2]],
       algo_events = [7 / 2, 7, 17 / 2, 10],
       volumes_per_trade = [[7], [3]], volumes_per_trade_default = [[7], [3]]\<rparr>))
   \<and> fst (update_remaining_volume (reset \<lparr>volume = 10, no_of_slices = 1, tick_size = \<lparr>coefficient = 10, exponent = - 1\<rparr>,
       buckets = \<lparr>start_time = 0, end_time = 10, bucket_width = 7, rand_width = None,
                  bucket_bounds = [0, 7, 10], n_buckets = 2\<rparr>,
       bucket_volumes = [7, 3], execution_times = [[7 / 2], [17 / 2]],
       algo_events = [7 / 2, 7, 17 / 2, 10],
       volumes_per_trade = [[7], [3]], volumes_per_trade_default = [[7], [3]]\<rparr>) (Some 9) None) = Some ValueError
   \<and> vol_remaining (snd (update_remaining_volume (reset \<lparr>volume = 10, no_of_slices = 1, tick_size = \<lparr>coefficient = 10, exponent = - 1\<rparr>,
       buckets = \<lparr>start_time = 0, end_time = 10, bucket_width = 7, rand_width = None,
                  bucket_bounds = [0, 7, 10], n_buckets = 2\<rparr>,
       bucket_volumes = [7, 3], execution_times = [[7 / 2], [17 / 2]],
       algo_events = [7 / 2, 7, 17 / 2, 10],
       volumes_per_trade = [[7], [3]], volumes_per_trade_default = [[7], [3]]\<rparr>) (Some 9) None)) = 1
   \<and> bucket_vol_remaining (snd (update_remaining_volume (reset \<lparr>volume = 10, no_of_slices = 1, tick_size = \<lparr>coefficient = 10, exponent = - 1\<rparr>,
       buckets = \<lparr>start_time = 0, end_time = 10, bucket_width = 7, rand_width = None,
                  bucket_bounds = [0, 7, 10], n_buckets = 2\<rparr>,
       bucket_volumes = [7, 3], execution_times = [[7 / 2], [17 / 2]],
       algo_events = [7 / 2, 7, 17 / 2, 10],
       volumes_per_trade = [[7], [3]], volumes_per_trade_default = [[7], [3]]\<rparr>) (Some 9) None)) = [- 2, 3]"
  using update_remaining_volume_fill [of 9 "reset \<lparr>volume = 10, no_of_slices = 1, tick_size = \<lparr>coefficient = 10, exponent = - 1\<rparr>,
       buckets = \<lparr>start_time = 0, end_time = 10, bucket_width = 7, rand_width = None,
                  bucket_bounds = [0, 7, 10], n_buckets = 2\<rparr>,
       bucket_volumes = [7, 3], execution_times = [[7 / 2], [17 / 2]],
       algo_events = [7 / 2, 7, 17 / 2, 10],
       volumes_per_trade = [[7], [3]], volumes_per_trade_default = [[7], [3]]\<rparr>" None]
  by (simp add: reset_def decimal_value_def)

text \<open>
  Claim C1 as stated fails. On the schedule above, a fill of 8 in bucket 0 and the bucket
  bound leave the global remaining volume at 2, the buckets at \<open>[-1, 3]\<close> and the cursor on
  bucket 1. A fill of 4 then brings the global remaining volume to \<open>-2\<close>, below
  \<open>- tick_size = -1\<close>, and the call returns normally: \<open>-2\<close> is not below \<open>-1 * 2\<close>, and
  bucket 1 is at \<open>-1\<close>.
\<close>

theorem update_remaining_volume_global_floor_counterexample:
  "(case TWAPAlgo_init 5 [] [[1 / 2], [1 / 2]] 0 10 1 0 10 None of
      Some (Inr a) \<Rightarrow>
        (let s1 = snd (update_remaining_volume (reset a) (Some 8) (Some bucket_bound));
             r = update_remaining_volume s1 (Some 4) None
         in vol_remaining s1 = 2 \<and> bucket_vol_remaining s1 = [- 1, 3] \<and> bucket_idx s1 = 1
            \<and> decimal_value (tick_size s1) = 1
            \<and> fst r = None
            \<and> vol_remaining (snd r) = - 2
            \<and> vol_remaining (snd r) < - decimal_value (tick_size s1))
    | _ \<Rightarrow> False)"
  unfolding twap_example
  by (simp add: reset_def update_remaining_volume_def decimal_value_def)

text \<open>
  Claim C10. A call with no trade log, or with a quantity of zero or less, leaves the global
  and every bucket's remaining volume as they were, whether it returns or raises; when it
  returns normally the bucket cursor is one further for a \<open>bucket_bound\<close> event and
  unchanged otherwise; and it returns normally whenever the remaining volumes it finds are
  not below their floors and the cursor is on an existing bucket.
\<close>

theorem update_remaining_volume_no_fill:
  assumes "case trade_log of None \<Rightarrow> True | Some quantity \<Rightarrow> quantity \<le> 0"
  shows "vol_remaining (snd (update_remaining_volume s trade_log event_type)) = vol_remaining s
       \<and> bucket_vol_remaining (snd (update_remaining_volume s trade_log event_type))
           = bucket_vol_remaining s
       \<and> (fst (update_remaining_volume s trade_log event_type) = None \<longrightarrow>
            bucket_idx (snd (update_remaining_volume s trade_log event_type))
              = (if event_type = Some bucket_bound then bucket_idx s + 1 else bucket_idx s))
       \<and> (- decimal_value (tick_size s) * of_nat (length (bucket_volumes s)) \<le> vol_remaining s
            \<and> bucket_idx s < length (bucket_vol_remaining s)
            \<and> - decimal_value (tick_size s) \<le> bucket_vol_remaining s ! bucket_idx s
          \<longrightarrow> fst (update_remaining_volume s trade_log event_type) = None)"
  using assms by (cases trade_log) (auto simp add: update_remaining_volume_def Let_def)

theorem update_remaining_volume_no_fill_witness:
  "fst (update_remaining_volume (reset \<lparr>volume = 10, no_of_slices = 1, tick_size = \<lparr>coefficient = 10, exponent = - 1\<rparr>,
       buckets = \<lparr>start_time = 0, end_time = 10, bucket_width = 7, rand_width = None,
                  bucket_bounds = [0, 7, 10], n_buckets = 2\<rparr>,
       bucket_volumes = [7, 3], execution_times = [[7 / 2], [17 / 2]],
       algo_events = [7 / 2, 7, 17 / 2, 10],
       volumes_per_trade = [[7], [3]], volumes_per_trade_default = [[7], [3]]\<rparr>) (Some 0) (Some bucket_bound)) = None
   \<and> vol_remaining (snd (update_remaining_volume (reset \<lparr>volume = 10, no_of_slices = 1, tick_size = \<lparr>coefficient = 10, exponent = - 1\<rparr>,
       buckets = \<lparr>start_time = 0, end_time = 10, bucket_width = 7, rand_width = None,
                  bucket_bounds = [0, 7, 10], n_buckets = 2\<rparr>,
       bucket_volumes = [7, 3], execution_times = [[7 / 2], [17 / 2]],
       algo_events = [7 / 2, 7, 17 / 2, 10],
       volumes_per_trade = [[7], [3]], volumes_per_trade_default = [[7], [3]]\<rparr>) (Some 0) (Some bucket_bound))) = 10
   \<and> bucket_vol_remaining (snd (update_remaining_volume (reset \<lparr>volume = 10, no_of_slices = 1, tick_size = \<lparr>coefficient = 10, exponent = - 1\<rparr>,
       buckets = \<lparr>start_time = 0, end_time = 10, bucket_width = 7, rand_width = None,
                  bucket_bounds = [0, 7, 10], n_buckets = 2\<rparr>,
       bucket_volumes = [7, 3], execution_times = [[7 / 2], [17 / 2]],
       algo_events = [7 / 2, 7, 17 / 2, 10],
       volumes_per_trade = [[7], [3]], volumes_per_trade_default = [[7], [3]]\<rparr>) (Some 0) (Some bucket_bound))) = [7, 3]
   \<and> bucket_idx (snd (update_remaining_volume (reset \<lparr>volume = 10, no_of_slices = 1, tick_size = \<lparr>coefficient = 10, exponent = - 1\<rparr>,
       buckets = \<lparr>start_time = 0, end_time = 10, bucket_width = 7, rand_width = None,
                  bucket_bounds = [0, 7, 10], n_buckets = 2\<rparr>,
       bucket_volumes = [7, 3], execution_times = [[7 / 2], [17 / 2]],
       algo_events = [7 / 2, 7, 17 / 2, 10],
       volumes_per_trade = [[7], [3]], volumes_per_trade_default = [[7], [3]]\<rparr>) (Some 0) (Some bucket_bound))) = 1"
  using update_remaining_volume_no_fill [of "Some 0" "reset \<lparr>volume = 10, no_of_slices = 1, tick_size = \<lparr>coefficient = 10, exponent = - 1\<rparr>,
       buckets = \<lparr>start_time = 0, end_time = 10, bucket_width = 7, rand_width = None,
                  bucket_bounds = [0, 7, 10], n_buckets = 2\<rparr>,
       bucket_volumes = [7, 3], execution_times = [[7 / 2], [17 / 2]],
       algo_events = [7 / 2, 7, 17 / 2, 10],
       volumes_per_trade = [[7], [3]], volumes_per_trade_default = [[7], [3]]\<rparr>" "Some bucket_bound"]
  by (simp add: reset_def decimal_value_def)

section \<open>Properties of the inferred volume\<close>

text \<open>
  Claim C5 fails on a tick size of one. The schedule above has the tick size
  \<^verbatim>\<open>Decimal('1.0')\<close>, of value 1 and exponent \<open>-1\<close>, so the factor of
  \<^verbatim>\<open>infer_volume_from_action\<close> is 10 and the volume is cut to a tenth of a tick. The action
  0.8 on the default slice volume 7, with 7 remaining in the bucket, gives 5.6, which is
  not a whole number of ticks.
\<close>

theorem infer_volume_from_action_unit_tick:
  "(case TWAPAlgo_init 5 [] [[1 / 2], [1 / 2]] 0 10 1 0 10 None of
      Some (Inr a) \<Rightarrow>
        tick_size a = tick_size_of_exponent 0
        \<and> decimal_value (tick_size a) = 1
        \<and> bucket_vol_remaining (RLAlgo_init a) ! bucket_idx (RLAlgo_init a) = 7
        \<and> infer_volume_from_action (RLAlgo_init a) (reset a) (4 / 5) = Inr (28 / 5)
        \<and> frac ((28 / 5) / decimal_value (tick_size a)) = 3 / 5
    | _ \<Rightarrow> False)"
  unfolding twap_example
  by (simp add: reset_def RLAlgo_init_def infer_volume_from_action_def
        decimal_value_def tick_size_of_exponent_def frac_def floor_eq_iff)

text \<open>
  What does hold of the inferred volume: it never exceeds the remaining volume of the
  current bucket, and for a tick size with the one digit 1 (\<^verbatim>\<open>Decimal('0.1')\<close>,
  \<^verbatim>\<open>Decimal('0.01')\<close>, ...) it is either that remaining volume or the target volume cut
  down to a whole number of ticks.
\<close>

theorem infer_volume_from_action_bounds:
  assumes "infer_volume_from_action rl bmk action = Inr v"
  shows "v \<le> bucket_vol_remaining rl ! bucket_idx rl
       \<and> (coefficient (tick_size bmk) = 1 \<longrightarrow>
            v = bucket_vol_remaining rl ! bucket_idx rl
            \<or> v = of_int \<lfloor>(volumes_per_trade rl ! bucket_idx rl ! order_idx rl
                             + action * (volumes_per_trade_default bmk ! bucket_idx rl ! order_idx rl))
                            / decimal_value (tick_size bmk)\<rfloor> * decimal_value (tick_size bmk))"
  using assms
  by (auto simp: infer_volume_from_action_def Let_def decimal_value_def split: if_splits)

theorem infer_volume_from_action_bounds_witness:
  "infer_volume_from_action (RLAlgo_init \<lparr>volume = 1000, no_of_slices = 2, tick_size = \<lparr>coefficient = 1, exponent = - 2\<rparr>,
       buckets = \<lparr>start_time = 0, end_time = 20, bucket_width = 7, rand_width = None,
                  bucket_bounds = [0, 7, 14, 20], n_buckets = 3\<rparr>,
       bucket_volumes = [350, 350, 300],
       execution_times = [[7 / 4, 7 / 2], [35 / 4, 21 / 2], [31 / 2, 37 / 2]],
       algo_events = [7 / 4, 7 / 2, 7, 35 / 4, 21 / 2, 14, 31 / 2, 37 / 2, 20],
       volumes_per_trade = [[175, 175], [175, 175], [150, 150]],
       volumes_per_trade_default = [[175, 175], [175, 175], [150, 150]]\<rparr>) (reset \<lparr>volume = 1000, no_of_slices = 2, tick_size = \<lparr>coefficient = 1, exponent = - 2\<rparr>,
       buckets = \<lparr>start_time = 0, end_time = 20, bucket_width = 7, rand_width = None,
                  bucket_bounds = [0, 7, 14, 20], n_buckets = 3\<rparr>,
       bucket_volumes = [350, 350, 300],
       execution_times = [[7 / 4, 7 / 2], [35 / 4, 21 / 2], [31 / 2, 37 / 2]],
       algo_events = [7 / 4, 7 / 2, 7, 35 / 4, 21 / 2, 14, 31 / 2, 37 / 2, 20],
       volumes_per_trade = [[175, 175], [175, 175], [150, 150]],
       volumes_per_trade_default = [[175, 175], [175, 175], [150, 150]]\<rparr>) (333 / 1000) = Inr (5827 / 100)
   \<and> (5827 / 100 :: rat) \<le> 350
   \<and> (5827 / 100 :: rat) = of_int \<lfloor>(0 + 333 / 1000 * 175) / (1 / 100 :: rat)\<rfloor> * (1 / 100)"
proof -
  have run: "infer_volume_from_action (RLAlgo_init \<lparr>volume = 1000, no_of_slices = 2, tick_size = \<lparr>coefficient = 1, exponent = - 2\<rparr>,
       buckets = \<lparr>start_time = 0, end_time = 20, bucket_width = 7, rand_width = None,
                  bucket_bounds = [0, 7, 14, 20], n_buckets = 3\<rparr>,
       bucket_volumes = [350, 350, 300],
       execution_times = [[7 / 4, 7 / 2], [35 / 4, 21 / 2], [31 / 2, 37 / 2]],
       algo_events = [7 / 4, 7 / 2, 7, 35 / 4, 21 / 2, 14, 31 / 2, 37 / 2, 20],
       volumes_per_trade = [[175, 175], [175, 175], [150, 150]],
       volumes_per_trade_default = [[175, 175], [175, 175], [150, 150]]\<rparr>) (reset \<lparr>volume = 1000, no_of_slices = 2, tick_size = \<lparr>coefficient = 1, exponent = - 2\<rparr>,
       buckets = \<lparr>start_time = 0, end_time = 20, bucket_width = 7, rand_width = None,
                  bucket_bounds = [0, 7, 14, 20], n_buckets = 3\<rparr>,
       bucket_volumes = [350, 350, 300],
       execution_times = [[7 / 4, 7 / 2], [35 / 4, 21 / 2], [31 / 2, 37 / 2]],
       algo_events = [7 / 4, 7 / 2, 7, 35 / 4, 21 / 2, 14, 31 / 2, 37 / 2, 20],
       volumes_per_trade = [[175, 175], [175, 175], [150, 150]],
       volumes_per_trade_default = [[175, 175], [175, 175], [150, 150]]\<rparr>) (333 / 1000) = Inr (5827 / 100)"
    by (simp add: infer_volume_from_action_def RLAlgo_init_def reset_def floor_eq_iff)
  from infer_volume_from_action_bounds [OF run] run show ?thesis
    by (simp add: floor_eq_iff)
qed

section \<open>Properties of the reward policies\<close>

text \<open>
  Claim C6 fails for the per-step sign variant. When \<^verbatim>\<open>calc_vwap_from_logs\<close> raises,
  \<^verbatim>\<open>ExampleEnvRewardAtStep.reward_func\<close>, which has no \<^verbatim>\<open>try\<close>, raises the same exception;
  the six other classes return the reward 0.
\<close>

theorem reward_func_failed_vwap:
  "ExampleEnvRewardAtStep_reward_func trade_dir (Inl e) = Inl e
   \<and> RewardAtStepEnv_reward_func trade_dir (Inl e) = Inr 0
   \<and> RewardAtBucketEnv_reward_func trade_dir bucket_changed (Inl e) = Inr 0
   \<and> RewardAtEpisodeEnv_reward_func trade_dir done (Inl e) = Inr 0
   \<and> NarrowTradeLimitEnvContinuous_reward_func trade_dir bucket_changed (Inl e) = Inr 0
   \<and> NarrowTradeLimitEnvDiscrete_reward_func [[7], [3]] 0 trade_dir bucket_changed (Inl e) = Inr 0
   \<and> DollarRewardAtStepEnv_reward_func trade_dir (Inl e) = Inr 0"
  by (simp add: ExampleEnvRewardAtStep_reward_func_def RewardAtStepEnv_reward_func_def
        RewardAtBucketEnv_reward_func_def RewardAtEpisodeEnv_reward_func_def
        NarrowTradeLimitEnvContinuous_reward_func_def NarrowTradeLimitEnvDiscrete_reward_func_def
        DollarRewardAtStepEnv_reward_func_def perc_improvement_def dollar_improvement_def)



end
